theory Spec2Isabelle
  imports Complex_Main "HOL-Library.Word" "HOL-Library.Signed_Division" "HOL-Library.Sublist"
begin

section \<open>Go values used by the sizing tool\<close>

subsection \<open>Machine integers\<close>

text \<open>
  Go's \<open>int\<close> is the 64-bit two's-complement integer on every target the repository builds
  for (amd64 and arm64). Comparisons are the signed ones (\<open><s\<close>), and \<open>/\<close> truncates
  towards zero (\<open>sdiv\<close> on the signed reading). The program divides by the constants
  4 and 100 only, so the panic of a division by zero has no branch here.
\<close>

type_synonym go_int = "64 word"

definition go_div :: "go_int \<Rightarrow> go_int \<Rightarrow> go_int" where
  "go_div a b = word_of_int (sint a sdiv sint b)"

text \<open>Decimal digits of a non-negative integer, most significant first.\<close>

definition digit_char :: "int \<Rightarrow> char" where
  "digit_char d = ''0123456789'' ! nat (d mod 10)"

function dec_digits :: "int \<Rightarrow> string" where
  "dec_digits n = (if n < 10 then [digit_char n] else dec_digits (n div 10) @ [digit_char (n mod 10)])"
  by pat_completeness auto
termination
  by (relation "measure nat") auto

declare dec_digits.simps [simp del]

text \<open>The verb \<open>%d\<close> of \<open>fmt.Sprintf\<close> on an \<open>int\<close>: a minus sign when negative, then the digits.\<close>

definition fmt_d :: "go_int \<Rightarrow> string" where
  "fmt_d x = (if sint x < 0 then CHR ''-'' # dec_digits (- sint x) else dec_digits (sint x))"

subsection \<open>float64\<close>

text \<open>
  A \<open>float64\<close> is an IEEE 754 binary64 value: a finite value (a rational; \<open>Finite 0\<close> is
  positive zero), negative zero, an infinity or NaN. Arithmetic computes the exact rational
  result and rounds it to the nearest representable value, ties to the even significand.
\<close>

datatype float64 = Finite rat | NegZero | PosInf | NegInf | NaN

definition pow2 :: "int \<Rightarrow> rat" where
  "pow2 k = (if 0 \<le> k then 2 ^ nat k else 1 / 2 ^ nat (- k))"

text \<open>Squaring, for computing powers of two by repeated squaring.\<close>

definition sq :: "rat \<Rightarrow> rat" where
  "sq x = x * x"

text \<open>The number of binary digits of a positive integer.\<close>

function bitlen :: "int \<Rightarrow> int" where
  "bitlen a = (if a \<le> 0 then 0 else 1 + bitlen (a div 2))"
  by pat_completeness auto
termination
  by (relation "measure nat") auto

declare bitlen.simps [simp del]

text \<open>\<open>ilog2 q\<close> is the binary exponent of a positive rational: \<open>2 ^ e \<le> q < 2 ^ (e + 1)\<close>.\<close>

definition ilog2 :: "rat \<Rightarrow> int" where
  "ilog2 q = (if 1 \<le> q then bitlen \<lfloor>q\<rfloor> - 1 else - bitlen (\<lceil>1 / q\<rceil> - 1))"

text \<open>The least magnitude that no longer rounds to a finite value, \<open>2 ^ 1024\<close>.\<close>

definition overflow_bound :: rat where
  "overflow_bound = 2 ^ 1024"

text \<open>Rounding of a non-negative rational to the nearest integer, a tie going to the even one.\<close>

definition round_half_even :: "rat \<Rightarrow> int" where
  "round_half_even r = (let f = \<lfloor>r\<rfloor>; d = r - of_int f
     in if d < 1 / 2 then f else if 1 / 2 < d then f + 1 else if even f then f else f + 1)"

text \<open>
  Rounding of an exact non-zero result: 53 significant bits, exponent at least \<open>-1022\<close>
  (below it the spacing stays \<open>2 ^ -1074\<close>, the subnormal range), overflow to infinity from
  \<open>2 ^ 1024\<close> on, underflow to a zero of the same sign.
\<close>

definition round_f64 :: "rat \<Rightarrow> float64" where
  "round_f64 q = (let a = \<bar>q\<bar>;
                      e = max (ilog2 a) (- 1022);
                      ulp = pow2 (e - 52);
                      m = of_int (round_half_even (a / ulp)) * ulp
                  in if overflow_bound \<le> m then (if q < 0 then NegInf else PosInf)
                     else if m = 0 then (if q < 0 then NegZero else Finite 0)
                     else Finite (if q < 0 then - m else m))"

fun is_nan :: "float64 \<Rightarrow> bool" where
  "is_nan NaN = True"
| "is_nan _ = False"

fun is_inf :: "float64 \<Rightarrow> bool" where
  "is_inf PosInf = True"
| "is_inf NegInf = True"
| "is_inf _ = False"

fun is_neg :: "float64 \<Rightarrow> bool" where
  "is_neg (Finite q) = (q < 0)"
| "is_neg NegZero = True"
| "is_neg NegInf = True"
| "is_neg _ = False"

fun is_zero :: "float64 \<Rightarrow> bool" where
  "is_zero (Finite q) = (q = 0)"
| "is_zero NegZero = True"
| "is_zero _ = False"

fun val :: "float64 \<Rightarrow> rat" where
  "val (Finite q) = q"
| "val _ = 0"

definition signed_zero :: "bool \<Rightarrow> float64" where
  "signed_zero neg = (if neg then NegZero else Finite 0)"

definition signed_inf :: "bool \<Rightarrow> float64" where
  "signed_inf neg = (if neg then NegInf else PosInf)"

definition f64_add :: "float64 \<Rightarrow> float64 \<Rightarrow> float64" where
  "f64_add x y =
     (if is_nan x \<or> is_nan y then NaN
      else if is_inf x \<and> is_inf y then (if x = y then x else NaN)
      else if is_inf x then x
      else if is_inf y then y
      else if x = NegZero \<and> y = NegZero then NegZero
      else if val x + val y = 0 then Finite 0
      else round_f64 (val x + val y))"

definition f64_mul :: "float64 \<Rightarrow> float64 \<Rightarrow> float64" where
  "f64_mul x y =
     (if is_nan x \<or> is_nan y then NaN
      else if is_inf x \<or> is_inf y then
        (if is_zero x \<or> is_zero y then NaN else signed_inf (is_neg x \<noteq> is_neg y))
      else if val x * val y = 0 then signed_zero (is_neg x \<noteq> is_neg y)
      else round_f64 (val x * val y))"

definition f64_div :: "float64 \<Rightarrow> float64 \<Rightarrow> float64" where
  "f64_div x y =
     (if is_nan x \<or> is_nan y then NaN
      else if is_inf x then (if is_inf y then NaN else signed_inf (is_neg x \<noteq> is_neg y))
      else if is_inf y then signed_zero (is_neg x \<noteq> is_neg y)
      else if val y = 0 then (if val x = 0 then NaN else signed_inf (is_neg x \<noteq> is_neg y))
      else if val x = 0 then signed_zero (is_neg x \<noteq> is_neg y)
      else round_f64 (val x / val y))"

text \<open>The conversion \<open>float64(n)\<close> of an \<open>int\<close>, and a decimal constant used as a \<open>float64\<close>.\<close>

definition f64_of_int :: "go_int \<Rightarrow> float64" where
  "f64_of_int n = (if sint n = 0 then Finite 0 else round_f64 (of_int (sint n)))"

definition f64_const :: "rat \<Rightarrow> float64" where
  "f64_const q = (if q = 0 then Finite 0 else round_f64 q)"

text \<open>
  The verb \<open>%.2f\<close>: the exact value rounded to two decimals, ties to even, with a minus
  sign for every negative value (negative zero included); \<open>NaN\<close>, \<open>+Inf\<close> and \<open>-Inf\<close>
  for the special values.
\<close>

definition two_digits :: "int \<Rightarrow> string" where
  "two_digits n = [digit_char (n div 10), digit_char (n mod 10)]"

definition fmt_fixed2 :: "bool \<Rightarrow> rat \<Rightarrow> string" where
  "fmt_fixed2 neg a = (let n = round_half_even (a * 100)
     in (if neg then ''-'' else '''') @ dec_digits (n div 100) @ ''.'' @ two_digits (n mod 100))"

fun fmt_f2 :: "float64 \<Rightarrow> string" where
  "fmt_f2 (Finite q) = fmt_fixed2 (q < 0) \<bar>q\<bar>"
| "fmt_f2 NegZero = fmt_fixed2 True 0"
| "fmt_f2 PosInf = ''+Inf''"
| "fmt_f2 NegInf = ''-Inf''"
| "fmt_f2 NaN = ''NaN''"

section \<open>Data model\<close>

record ConfigSpec =
  AppName :: string
  ExpectedLoad :: go_int
  DataSize :: go_int
  NetworkTraffic :: go_int
  ImportanceLevel :: string

record ComputeSpec =
  CPU :: float64
  Memory :: string

record NetworkSpec =
  Bandwidth :: string
  Ports :: "go_int list"

record StorageSpec =
  Capacity :: string
  Class :: string

text \<open>
  An \<open>error\<close> is modelled by its message; \<open>None\<close> is \<open>nil\<close>. A \<open>time.Duration\<close> is a
  64-bit count of nanoseconds.
\<close>

type_synonym error = string
type_synonym duration = "64 word"

record TimedResult =
  Name :: string
  ComputeSpec :: ComputeSpec
  NetworkSpec :: NetworkSpec
  StorageSpec :: StorageSpec
  Error :: "error option"
  Duration :: duration

text \<open>The zero values a composite literal leaves in the fields it does not mention.\<close>

definition zeroComputeSpec :: ComputeSpec where
  "zeroComputeSpec = \<lparr>CPU = Finite 0, Memory = ''''\<rparr>"

definition zeroNetworkSpec :: NetworkSpec where
  "zeroNetworkSpec = \<lparr>Bandwidth = '''', Ports = []\<rparr>"

definition zeroStorageSpec :: StorageSpec where
  "zeroStorageSpec = \<lparr>Capacity = '''', Class = ''''\<rparr>"

definition zeroTimedResult :: TimedResult where
  "zeroTimedResult = \<lparr>Name = '''', ComputeSpec = zeroComputeSpec, NetworkSpec = zeroNetworkSpec,
     StorageSpec = zeroStorageSpec, Error = None, Duration = 0\<rparr>"

section \<open>Rule engine\<close>

text \<open>
  Each rule function sleeps, computes its decision and sends one \<open>TimedResult\<close> on the
  channel. The model returns the value sent. The elapsed time read from the clock is not
  determined by the input, so it is an argument; the progress line printed to standard
  output is not part of the result and is left out.
\<close>

definition decideCompute :: "ConfigSpec \<Rightarrow> duration \<Rightarrow> TimedResult" where
  "decideCompute config elapsed =
     (let cpu = f64_div (f64_of_int (ExpectedLoad config)) (f64_const 150);
          memory = ''256Mi'';
          (cpu, memory) = (if 300 <s ExpectedLoad config
                           then (f64_add cpu (f64_const (3 / 4)), ''512Mi'') else (cpu, memory));
          (cpu, memory) = (if ImportanceLevel config = ''high''
                           then (f64_add cpu (f64_const (1 / 4)), ''1Gi'') else (cpu, memory));
          memory = (if 50 <s DataSize config
                    then fmt_d (256 + go_div (DataSize config) 4) @ ''Mi'' else memory)
      in zeroTimedResult\<lparr>Name := ''compute'',
           ComputeSpec := \<lparr>CPU = cpu, Memory = memory\<rparr>,
           Duration := elapsed,
           Error := None\<rparr>)"

definition decideNetwork :: "ConfigSpec \<Rightarrow> duration \<Rightarrow> TimedResult" where
  "decideNetwork config elapsed =
     (let bandwidth = ''50Mbps'';
          ports = [8080];
          bandwidth = (if 25 <s NetworkTraffic config then ''200Mbps'' else bandwidth);
          ports = (if ImportanceLevel config = ''high'' then ports @ [443] else ports)
      in zeroTimedResult\<lparr>Name := ''network'',
           NetworkSpec := \<lparr>Bandwidth = bandwidth, Ports = ports\<rparr>,
           Duration := elapsed,
           Error := None\<rparr>)"

definition decideStorage :: "ConfigSpec \<Rightarrow> duration \<Rightarrow> TimedResult" where
  "decideStorage config elapsed =
     (let capacity = ''5Gi'';
          class = ''standard'';
          (capacity, class) = (if 250 <s DataSize config
                               then (fmt_d (5 + go_div (DataSize config) 100) @ ''Gi'', ''premium'')
                               else (capacity, class));
          capacity = (if ImportanceLevel config = ''high'' then ''20Gi'' else capacity)
      in zeroTimedResult\<lparr>Name := ''storage'',
           StorageSpec := \<lparr>Capacity = capacity, Class = class\<rparr>,
           Duration := elapsed,
           Error := None\<rparr>)"

section \<open>Result aggregator\<close>

text \<open>
  \<open>collectTimedResourceSpecs\<close> starts the three rule functions as goroutines on one
  buffered channel and receives three times. What the goroutines leave to the scheduler is
  the order in which the three results arrive and the elapsed time each one measures; a
  \<open>schedule\<close> fixes both.
\<close>

datatype task = ComputeTask | NetworkTask | StorageTask

record schedule =
  arrival :: "task list"
  elapsed :: "task \<Rightarrow> duration"

fun runTask :: "ConfigSpec \<Rightarrow> (task \<Rightarrow> duration) \<Rightarrow> task \<Rightarrow> TimedResult" where
  "runTask config el ComputeTask = decideCompute config (el ComputeTask)"
| "runTask config el NetworkTask = decideNetwork config (el NetworkTask)"
| "runTask config el StorageTask = decideStorage config (el StorageTask)"

text \<open>Every task sends exactly once: the arrival order is a permutation of the three tasks.\<close>

definition fair :: "schedule \<Rightarrow> bool" where
  "fair s \<longleftrightarrow> length (arrival s) = 3 \<and> distinct (arrival s)"

text \<open>
  A \<open>map[string]TimedResult\<close> is a partial function, \<open>None\<close> standing for the \<open>nil\<close>
  map. Reading a key that is absent (or reading the \<open>nil\<close> map) gives the zero value.
\<close>

type_synonym results = "(string \<rightharpoonup> TimedResult) option"

definition lookupResult :: "results \<Rightarrow> string \<Rightarrow> TimedResult" where
  "lookupResult rs k = (case rs of None \<Rightarrow> zeroTimedResult
     | Some m \<Rightarrow> (case m k of None \<Rightarrow> zeroTimedResult | Some r \<Rightarrow> r))"

text \<open>
  The receive loop, over the contents of the channel in arrival order. It returns the pair
  \<open>(timedResults, err)\<close> of the source; the outer \<open>None\<close> is a receive on a channel that
  nobody will send on again, which blocks for ever.
\<close>

fun recvLoop :: "nat \<Rightarrow> TimedResult list \<Rightarrow> (string \<rightharpoonup> TimedResult)
    \<Rightarrow> (results \<times> error option) option" where
  "recvLoop 0 ch timedResults = Some (Some timedResults, None)"
| "recvLoop (Suc n) [] timedResults = None"
| "recvLoop (Suc n) (r # ch) timedResults =
     (case Error r of
        Some e \<Rightarrow> Some (None, Some (''error in '' @ Name r @ '' decision: '' @ e))
      | None \<Rightarrow> recvLoop n ch (timedResults(Name r \<mapsto> r)))"

definition collectFrom :: "TimedResult list \<Rightarrow> (results \<times> error option) option" where
  "collectFrom ch = recvLoop 3 ch Map.empty"

definition collectTimedResourceSpecs :: "ConfigSpec \<Rightarrow> schedule \<Rightarrow> (results \<times> error option) option" where
  "collectTimedResourceSpecs config s = collectFrom (map (runTask config (elapsed s)) (arrival s))"

text \<open>A result without its measured duration: what the rules decided.\<close>

definition decision :: "TimedResult \<Rightarrow> TimedResult" where
  "decision r = r\<lparr>Duration := 0\<rparr>"

section \<open>Manifest generator\<close>

definition portEntry :: "go_int \<Rightarrow> string" where
  "portEntry port =
     ''\<newline>'' @
     ''          - containerPort: '' @ fmt_d port @ ''\<newline>'' @
     ''            protocol: TCP\<newline>'' @
     ''        ''"

definition portString :: "go_int list \<Rightarrow> string" where
  "portString ports = foldl (\<lambda>s port. s @ portEntry port) [] ports"

definition generateKubernetesManifest :: "string \<Rightarrow> results \<Rightarrow> go_int list \<Rightarrow> string" where
  \<open>generateKubernetesManifest appName timedResults ports =
     (let computeResult = lookupResult timedResults ''compute'';
          networkResult = lookupResult timedResults ''network'';
          storageResult = lookupResult timedResults ''storage''
      in ''\<newline>'' @
         ''apiVersion: apps/v1\<newline>'' @
         ''kind: Deployment\<newline>'' @
         ''metadata:\<newline>'' @
         ''  name: '' @ appName @ ''-deployment\<newline>'' @
         ''spec:\<newline>'' @
         ''  replicas: 1\<newline>'' @
         ''  selector:\<newline>'' @
         ''    matchLabels:\<newline>'' @
         ''      app: '' @ appName @ ''\<newline>'' @
         ''  template:\<newline>'' @
         ''    metadata:\<newline>'' @
         ''      labels:\<newline>'' @
         ''        app: '' @ appName @ ''\<newline>'' @
         ''    spec:\<newline>'' @
         ''      containers:\<newline>'' @
         ''      - name: '' @ appName @ ''-container\<newline>'' @
         ''        image: your-app-image:latest # Replace with your actual image\<newline>'' @
         ''        resources:\<newline>'' @
         ''          requests:\<newline>'' @
         ''            cpu: "'' @ fmt_f2 (f64_mul (CPU (ComputeSpec computeResult)) (f64_const (4 / 5))) @ ''"\<newline>'' @
         ''            memory: "'' @ Memory (ComputeSpec computeResult) @ ''"\<newline>'' @
         ''          limits:\<newline>'' @
         ''            cpu: "'' @ fmt_f2 (CPU (ComputeSpec computeResult)) @ ''"\<newline>'' @
         ''            memory: "'' @ Memory (ComputeSpec computeResult) @ ''"\<newline>'' @
         ''        ports:\<newline>'' @
         portString ports @ ''\<newline>'' @
         ''        env:\<newline>'' @
         ''          - name: NETWORK_BANDWIDTH\<newline>'' @
         ''            value: "'' @ Bandwidth (NetworkSpec networkResult) @ ''"\<newline>'' @
         ''          - name: STORAGE_CAPACITY\<newline>'' @
         ''            value: "'' @ Capacity (StorageSpec storageResult) @ ''"\<newline>'' @
         ''          - name: STORAGE_CLASS\<newline>'' @
         ''            value: "'' @ Class (StorageSpec storageResult) @ ''"\<newline>'')\<close>

section \<open>The wizard's handling of the outcome\<close>

text \<open>
  Of the terminal program's model, the fields that the completion messages read or write.
  The text inputs, the list widget and the window size belong to the input form and are
  not modelled.
\<close>

datatype inputState = inputStateText | inputStateList | inputStateProcessing | inputStateDone

record model =
  inputState :: inputState
  quitting :: bool
  config :: ConfigSpec
  processing :: bool
  spinner :: string
  result :: results
  err :: "error option"
  k8sManifestPath :: string
  "output" :: string

text \<open>
  What the program calls outside the repository: the file system (\<open>os.MkdirAll\<close>,
  \<open>os.WriteFile\<close>, each returning its error), \<open>filepath.Join\<close>, the text of a
  \<open>time.Duration\<close> and the Markdown renderer \<open>glamour.Render\<close>.
\<close>

record host =
  mkdirAll :: "string \<Rightarrow> error option"
  writeFile :: "string \<Rightarrow> string \<Rightarrow> error option"
  pathJoin :: "string \<Rightarrow> string \<Rightarrow> string"
  durationString :: "duration \<Rightarrow> string"
  glamourRender :: "string \<Rightarrow> string \<Rightarrow> error + string"

definition generateAndWriteManifest :: "host \<Rightarrow> model \<Rightarrow> model \<times> error option" where
  "generateAndWriteManifest h m =
     (if result m = None then (m, Some ''no results available to generate manifest'')
      else
        let k8sManifest = generateKubernetesManifest (AppName (config m)) (result m)
              (Ports (NetworkSpec (lookupResult (result m) ''network'')));
            outputPath = pathJoin h ''k8s'' (AppName (config m) @ ''-deployment.yaml'')
        in case mkdirAll h ''k8s'' of
             Some e \<Rightarrow> (m, Some (''error creating k8s directory: '' @ e))
           | None \<Rightarrow>
               (case writeFile h outputPath k8sManifest of
                  Some e \<Rightarrow> (m, Some (''error writing Kubernetes manifest: '' @ e))
                | None \<Rightarrow> (m\<lparr>k8sManifestPath := outputPath\<rparr>, None)))"

text \<open>The verb \<open>%v\<close> on a slice of \<open>int\<close>: the elements between brackets, separated by spaces.\<close>

fun spaced :: "string list \<Rightarrow> string" where
  "spaced [] = []"
| "spaced [x] = x"
| "spaced (x # y # ys) = x @ '' '' @ spaced (y # ys)"

definition fmt_v_ints :: "go_int list \<Rightarrow> string" where
  "fmt_v_ints xs = ''['' @ spaced (map fmt_d xs) @ '']''"

definition generateOutput :: "host \<Rightarrow> model \<Rightarrow> string" where
  "generateOutput h m =
     (if err m \<noteq> None then []
      else if result m = None then ''# No Results''
      else
        let computeResult = lookupResult (result m) ''compute'';
            networkResult = lookupResult (result m) ''network'';
            storageResult = lookupResult (result m) ''storage''
        in ''# Resource Allocation Decision\<newline>\<newline>'' @
           ''## Decided Resources\<newline>\<newline>'' @
           (''- **Compute:** CPU='' @ fmt_f2 (CPU (ComputeSpec computeResult)) @ '' cores, Memory='' @
              Memory (ComputeSpec computeResult) @ '' (took '' @
              durationString h (Duration computeResult) @ '')\<newline>'') @
           (''- **Network:** Bandwidth='' @ Bandwidth (NetworkSpec networkResult) @ '', Ports='' @
              fmt_v_ints (Ports (NetworkSpec networkResult)) @ '' (took '' @
              durationString h (Duration networkResult) @ '')\<newline>'') @
           (''- **Storage:** Capacity='' @ Capacity (StorageSpec storageResult) @ '', Class='' @
              Class (StorageSpec storageResult) @ '' (took '' @
              durationString h (Duration storageResult) @ '')\<newline>'') @
           (if k8sManifestPath m \<noteq> []
            then ''\<newline>## File Generated\<newline>\<newline>Deployment file generated within `'' @
                 k8sManifestPath m @ ''`\<newline>''
            else []))"

text \<open>
  \<open>Update\<close> on the two messages that end the processing; both return the command
  \<open>tea.Quit\<close>. The key, tick and window-size messages drive the input form only.
\<close>

datatype msg = ProcessCompleteMsg results | ProcessErrorMsg error

datatype cmd = Quit

fun Update :: "host \<Rightarrow> msg \<Rightarrow> model \<Rightarrow> model \<times> cmd" where
  "Update h (ProcessCompleteMsg timedResults) m =
     (let m = m\<lparr>processing := False, result := timedResults, inputState := inputStateDone\<rparr>;
          (m, e) = generateAndWriteManifest h m;
          m = (case e of
                 Some cause \<Rightarrow> m\<lparr>err := Some (''failed to generate/write manifest: '' @ cause)\<rparr>
               | None \<Rightarrow> m);
          m = m\<lparr>output := generateOutput h m\<rparr>
      in (m, Quit))"
| "Update h (ProcessErrorMsg e) m =
     (let m = m\<lparr>processing := False, err := Some e, inputState := inputStateDone\<rparr>;
          m = m\<lparr>output := generateOutput h m\<rparr>
      in (m, Quit))"

text \<open>
  \<open>View\<close> gives the text on the screen, or \<open>InputForm\<close> while the input form is shown
  (its layout is not modelled).
\<close>

datatype screen = Text string | InputForm

definition View :: "host \<Rightarrow> model \<Rightarrow> screen" where
  "View h m =
     (if quitting m then Text ''Exiting...\<newline>''
      else if inputState m = inputStateProcessing
      then Text (spinner m @ '' Processing resource allocation for '' @ AppName (config m) @ ''...\<newline>'')
      else if inputState m = inputStateDone then
        (case err m of
           Some e \<Rightarrow>
             (case glamourRender h (''# Error\<newline>\<newline>```\<newline>'' @ e @ ''\<newline>```'') ''dark'' of
                Inl renderErr \<Rightarrow> Text (''Error rendering error message: '' @ renderErr @
                                     ''\<newline>Original Error:\<newline>'' @ e @ ''\<newline>'')
              | Inr errorOutput \<Rightarrow> Text errorOutput)
         | None \<Rightarrow>
             (case glamourRender h (output m) ''dark'' of
                Inl e \<Rightarrow> Text (''Error rendering output: '' @ e @ ''\<newline>Output:\<newline>'' @ output m @ ''\<newline>'')
              | Inr out \<Rightarrow> Text out))
      else InputForm)"

section \<open>Notions used in the statements\<close>

text \<open>The map that holds each rule's result under the rule's name.\<close>

definition decided :: "ConfigSpec \<Rightarrow> (task \<Rightarrow> duration) \<Rightarrow> string \<rightharpoonup> TimedResult" where
  "decided cfg el = [''compute'' \<mapsto> decideCompute cfg (el ComputeTask),
                     ''network'' \<mapsto> decideNetwork cfg (el NetworkTask),
                     ''storage'' \<mapsto> decideStorage cfg (el StorageTask)]"

text \<open>The text a screen shows.\<close>

fun screen_text :: "screen \<Rightarrow> string" where
  "screen_text (Text s) = s"
| "screen_text InputForm = []"

text \<open>
  A text that lists the values of each decision contains, among them, the memory, the
  bandwidth, the capacity and the storage class that were decided.
\<close>

definition shows_decisions :: "results \<Rightarrow> string \<Rightarrow> bool" where
  "shows_decisions rs text \<longleftrightarrow>
     sublist (Memory (ComputeSpec (lookupResult rs ''compute''))) text
     \<and> sublist (Bandwidth (NetworkSpec (lookupResult rs ''network''))) text
     \<and> sublist (Capacity (StorageSpec (lookupResult rs ''storage''))) text
     \<and> sublist (Class (StorageSpec (lookupResult rs ''storage''))) text"

section \<open>Example inputs\<close>

text \<open>
  Two inputs, two schedules, a result that carries a failure, a host on which the output
  directory cannot be created (its renderer returns the Markdown unchanged), and the model
  as it is while the decisions are being computed.
\<close>

definition shop_config :: ConfigSpec where
  "shop_config = \<lparr>AppName = ''shop'', ExpectedLoad = 350, DataSize = 60, NetworkTraffic = 30,
     ImportanceLevel = ''high''\<rparr>"

definition batch_config :: ConfigSpec where
  "batch_config = \<lparr>AppName = ''batch'', ExpectedLoad = 200, DataSize = 0, NetworkTraffic = 10,
     ImportanceLevel = ''medium''\<rparr>"

definition storage_first :: schedule where
  "storage_first = \<lparr>arrival = [StorageTask, NetworkTask, ComputeTask], elapsed = (\<lambda>t. 100000000)\<rparr>"

definition compute_first :: schedule where
  "compute_first = \<lparr>arrival = [ComputeTask, StorageTask, NetworkTask], elapsed = (\<lambda>t. 200000000)\<rparr>"

definition failed_network :: TimedResult where
  "failed_network = zeroTimedResult\<lparr>Name := ''network'', Error := Some ''link down''\<rparr>"

definition channel_with_failure :: "TimedResult list" where
  "channel_with_failure = [decideStorage shop_config 0, failed_network, decideCompute shop_config 0]"

definition channel_all_good :: "TimedResult list" where
  "channel_all_good = [decideStorage shop_config 0, decideNetwork shop_config 0, decideCompute shop_config 0]"

definition readonly_host :: host where
  "readonly_host = \<lparr>mkdirAll = (\<lambda>path. Some ''mkdir k8s: permission denied''),
     writeFile = (\<lambda>path text. None),
     pathJoin = (\<lambda>dir file. dir @ ''/'' @ file),
     durationString = (\<lambda>d. fmt_d d @ ''ns''),
     glamourRender = (\<lambda>markdown style. Inr markdown)\<rparr>"

definition waiting_model :: model where
  "waiting_model = \<lparr>inputState = inputStateProcessing, quitting = False, config = shop_config,
     processing = True, spinner = ''*'', result = None, err = None, k8sManifestPath = [],
     output = []\<rparr>"

definition shop_results :: results where
  "shop_results = Some (decided shop_config (\<lambda>t. 0))"

section \<open>Evaluation of the number model\<close>

lemma pow2_code [code]:
  "pow2 k = (if k = 0 then 1 else if k < 0 then 1 / pow2 (- k)
             else if even k then sq (pow2 (k div 2)) else 2 * pow2 (k - 1))"
proof -
  have ev: "pow2 k = sq (pow2 (k div 2))" if "0 < k" "even k"
  proof -
    from that obtain j where j: "k = 2 * j" and "0 < j" by (auto elim!: evenE)
    then have "nat k = nat j + nat j" by simp
    with j \<open>0 < j\<close> show ?thesis by (simp add: pow2_def sq_def power_add)
  qed
  have od: "pow2 k = 2 * pow2 (k - 1)" if "0 < k"
  proof -
    from that have "nat k = Suc (nat (k - 1))" by simp
    with that show ?thesis by (simp add: pow2_def)
  qed
  show ?thesis using ev od by (auto simp: pow2_def)
qed

lemma overflow_bound_code [code]:
  "overflow_bound = 179769313486231590772930519078902473361797697894230657273430081157732675805500963132708477322407536021120113879871393357658789768814416622492847430639474124377767893424865485276302219601246094119453082952085005768838150682342462881473913110540827237163350510684586298239947245938479716304835356329624224137216"
  by (simp add: overflow_bound_def)

text \<open>
  The exponent found by \<open>ilog2\<close> brackets its argument, and a finite result of
  \<open>round_f64\<close> lies within half a unit in the last place of the exact value.
\<close>

lemma bitlen_nonneg: "0 \<le> bitlen a"
proof (induction a rule: bitlen.induct)
  case (1 a)
  show ?case
  proof (cases "a \<le> 0")
    case True
    then show ?thesis by (simp add: bitlen.simps)
  next
    case False
    with 1 have "0 \<le> bitlen (a div 2)" by simp
    with False show ?thesis by (subst bitlen.simps) simp
  qed
qed

lemma bitlen_bounds:
  "0 < a \<Longrightarrow> 2 ^ nat (bitlen a - 1) \<le> a \<and> a < 2 ^ nat (bitlen a)"
proof (induction a rule: bitlen.induct)
  case (1 a)
  have b: "bitlen a = 1 + bitlen (a div 2)" using "1.prems" by (subst bitlen.simps) simp
  show ?case
  proof (cases "a = 1")
    case True
    then show ?thesis by (simp add: bitlen.simps)
  next
    case False
    with "1.prems" have h: "0 < a div 2" by simp
    with 1 have ih: "2 ^ nat (bitlen (a div 2) - 1) \<le> a div 2" "a div 2 < 2 ^ nat (bitlen (a div 2))"
      by simp_all
    have p: "0 < bitlen (a div 2)"
      using h bitlen_nonneg [of "a div 2 div 2"] by (subst bitlen.simps) simp
    then have n: "nat (bitlen (a div 2)) = Suc (nat (bitlen (a div 2) - 1))" by simp
    have "(2::int) ^ nat (bitlen a - 1) = 2 * 2 ^ nat (bitlen (a div 2) - 1)"
      unfolding b using n by simp
    also have "\<dots> \<le> 2 * (a div 2)" using ih(1) by simp
    also have "\<dots> \<le> a" by simp
    finally have lo: "2 ^ nat (bitlen a - 1) \<le> a" .
    have "a < 2 * (a div 2 + 1)" by simp
    also have "\<dots> \<le> 2 * 2 ^ nat (bitlen (a div 2))" using ih(2) by simp
    also have "\<dots> = 2 ^ nat (bitlen a)" unfolding b using p by (simp add: nat_add_distrib)
    finally show ?thesis using lo by simp
  qed
qed

lemma pow2_nonneg_eq: "0 \<le> k \<Longrightarrow> pow2 k = 2 ^ nat k"
  by (simp add: pow2_def)

lemma pow2_neg_eq: "0 \<le> k \<Longrightarrow> pow2 (- k) = 1 / 2 ^ nat k"
  by (cases "k = 0") (simp_all add: pow2_def)

lemma ilog2_bounds:
  assumes "0 < q"
  shows "pow2 (ilog2 q) \<le> q \<and> q < pow2 (ilog2 q + 1)"
proof (cases "1 \<le> q")
  case True
  let ?n = "\<lfloor>q\<rfloor>"
  have n: "0 < ?n" using True by simp
  note bb = bitlen_bounds [OF n]
  have p: "0 < bitlen ?n" using n bitlen_nonneg [of "?n div 2"] by (subst bitlen.simps) simp
  have "pow2 (bitlen ?n - 1) = of_int (2 ^ nat (bitlen ?n - 1))"
    using p by (simp add: pow2_nonneg_eq)
  also have "\<dots> \<le> of_int ?n" using bb by (simp only: of_int_le_iff)
  also have "\<dots> \<le> q" by simp
  finally have lo: "pow2 (bitlen ?n - 1) \<le> q" .
  have "?n + 1 \<le> 2 ^ nat (bitlen ?n)" using bb by simp
  then have "(of_int (?n + 1) :: rat) \<le> of_int (2 ^ nat (bitlen ?n))" by (simp only: of_int_le_iff)
  moreover have "q < of_int (?n + 1)" by linarith
  ultimately have "q < of_int (2 ^ nat (bitlen ?n))" by linarith
  also have "\<dots> = pow2 (bitlen ?n - 1 + 1)" using p by (simp add: pow2_nonneg_eq)
  finally show ?thesis using lo True by (simp add: ilog2_def)
next
  case False
  let ?r = "1 / q"
  let ?n = "\<lceil>?r\<rceil> - 1"
  have r: "1 < ?r" using False assms by simp
  then have "1 < \<lceil>?r\<rceil>" by (simp add: less_ceiling_iff)
  then have n: "0 < ?n" by simp
  note bb = bitlen_bounds [OF n]
  have p: "0 < bitlen ?n" using n bitlen_nonneg [of "?n div 2"] by (subst bitlen.simps) simp
  have nr: "of_int ?n < ?r" "?r \<le> of_int ?n + 1"
    using ceiling_correct [of ?r] by simp_all
  have "?r \<le> of_int (?n + 1)" using nr(2) by simp
  also have "\<dots> \<le> of_int (2 ^ nat (bitlen ?n))"
    using bb by (simp only: of_int_le_iff) simp
  finally have "?r \<le> 2 ^ nat (bitlen ?n)" by simp
  then have "1 \<le> q * 2 ^ nat (bitlen ?n)" using assms by (simp add: field_simps)
  moreover have "pow2 (- bitlen ?n) = 1 / 2 ^ nat (bitlen ?n)"
    using p by (simp add: pow2_neg_eq)
  ultimately have lo: "pow2 (- bitlen ?n) \<le> q"
    by (simp add: pos_divide_le_eq)
  have "(of_int (2 ^ nat (bitlen ?n - 1)) :: rat) \<le> of_int ?n" using bb by (simp only: of_int_le_iff)
  also have "\<dots> < ?r" by (rule nr(1))
  finally have "2 ^ nat (bitlen ?n - 1) < ?r" by simp
  then have "q * 2 ^ nat (bitlen ?n - 1) < 1" using assms by (simp add: field_simps)
  moreover have "pow2 (- (bitlen ?n - 1)) = 1 / 2 ^ nat (bitlen ?n - 1)"
    using p pow2_neg_eq [of "bitlen ?n - 1"] by simp
  ultimately have hi: "q < pow2 (- (bitlen ?n - 1))"
    by (simp add: pos_less_divide_eq)
  show ?thesis using lo hi False by (simp add: ilog2_def)
qed

lemma pow2_pos: "0 < pow2 k"
  by (simp add: pow2_def)

lemma round_half_even_near: "\<bar>of_int (round_half_even r) - r\<bar> \<le> 1 / 2"
proof -
  define d where "d = r - of_int \<lfloor>r\<rfloor>"
  have d: "0 \<le> d" "d < 1" unfolding d_def by linarith+
  have r: "r = of_int \<lfloor>r\<rfloor> + d" by (simp add: d_def)
  have "round_half_even r = \<lfloor>r\<rfloor> \<and> d \<le> 1 / 2 \<or> round_half_even r = \<lfloor>r\<rfloor> + 1 \<and> 1 / 2 \<le> d"
    unfolding round_half_even_def Let_def d_def [symmetric] by auto
  then show ?thesis
  proof
    assume a: "round_half_even r = \<lfloor>r\<rfloor> \<and> d \<le> 1 / 2"
    then have "of_int (round_half_even r) - r = - d" using r by simp
    with a d show ?thesis by simp
  next
    assume a: "round_half_even r = \<lfloor>r\<rfloor> + 1 \<and> 1 / 2 \<le> d"
    then have "of_int (round_half_even r) - r = 1 - d" using r by simp
    with a d show ?thesis by simp
  qed
qed

lemma round_f64_near:
  assumes "round_f64 q = Finite m"
  shows "\<bar>m - q\<bar> \<le> pow2 (max (ilog2 \<bar>q\<bar>) (- 1022) - 52) / 2"
proof -
  define ulp where "ulp = pow2 (max (ilog2 \<bar>q\<bar>) (- 1022) - 52)"
  define n where "n = round_half_even (\<bar>q\<bar> / ulp)"
  define x where "x = of_int n * ulp"
  have u: "0 < ulp" unfolding ulp_def by (rule pow2_pos)
  have "\<bar>of_int n - \<bar>q\<bar> / ulp\<bar> \<le> 1 / 2" unfolding n_def by (rule round_half_even_near)
  then have f1: "\<bar>of_int n - \<bar>q\<bar> / ulp\<bar> * ulp \<le> 1 / 2 * ulp"
    using u by (intro mult_right_mono) simp_all
  have "(of_int n - \<bar>q\<bar> / ulp) * ulp = x - \<bar>q\<bar>"
    using u by (simp add: left_diff_distrib x_def)
  then have f2: "\<bar>of_int n - \<bar>q\<bar> / ulp\<bar> * ulp = \<bar>x - \<bar>q\<bar>\<bar>"
    using u abs_mult_pos [of ulp "of_int n - \<bar>q\<bar> / ulp"] by simp
  have near: "\<bar>x - \<bar>q\<bar>\<bar> \<le> ulp / 2" using f1 unfolding f2 by simp
  have r: "round_f64 q = (if overflow_bound \<le> x then (if q < 0 then NegInf else PosInf)
                     else if x = 0 then (if q < 0 then NegZero else Finite 0)
                     else Finite (if q < 0 then - x else x))"
    by (simp add: round_f64_def Let_def x_def n_def ulp_def)
  have "m = (if q < 0 then - x else x)"
    using assms unfolding r by (simp split: if_splits)
  with near have "\<bar>m - q\<bar> \<le> ulp / 2" by (cases "q < 0") (simp_all add: abs_if split: if_splits)
  then show ?thesis by (simp add: ulp_def)
qed

text \<open>Values that are known for binary64, computed by the model.\<close>

lemma float64_examples:
  "f64_const (1 / 10) = Finite (3602879701896397 / 36028797018963968)"
  "f64_const (4 / 5) = Finite (3602879701896397 / 4503599627370496)"
  "f64_const 150 = Finite 150"
  "f64_of_int 9007199254740993 = Finite 9007199254740992"
  "f64_of_int 9007199254740995 = Finite 9007199254740996"
  "f64_of_int (- 3) = Finite (- 3)"
  "f64_div (f64_of_int 200) (f64_const 150) = Finite (6004799503160661 / 4503599627370496)"
  "f64_div (Finite 1) (Finite 0) = PosInf"
  "f64_mul PosInf (Finite 0) = NaN"
  by code_simp+

lemma fmt_examples:
  "fmt_f2 (Finite (6004799503160661 / 4503599627370496)) = ''1.33''"
  "fmt_f2 (Finite (1 / 8)) = ''0.12''"
  "fmt_f2 (Finite (3 / 8)) = ''0.38''"
  "fmt_f2 (Finite (- 1 / 1000)) = ''-0.00''"
  "fmt_f2 (Finite 0) = ''0.00''"
  "fmt_d 8080 = ''8080''"
  "fmt_d (- 9223372036854775808) = ''-9223372036854775808''"
  "fmt_v_ints [8080, 443] = ''[8080 443]''"
  by code_simp+

section \<open>Integer arithmetic without overflow\<close>

lemma sint_go_div_nonneg:
  assumes "0 \<le> sint x" and "0 < k" and "k < 2 ^ 63"
  shows "sint (go_div x (word_of_int k)) = sint x div k"
proof -
  have k: "sint (word_of_int k :: go_int) = k"
    using assms(2,3) by (simp add: sint_sbintrunc' signed_take_bit_int_eq_self)
  have lt: "sint x < 2 ^ 63" using sint_lt [of x] by simp
  have d: "sint x sdiv k = sint x div k"
    using assms(1,2) by (simp add: signed_divide_int_def sgn_if)
  have le: "sint x div k \<le> sint x"
    using zdiv_mono2 [of "sint x" 1 k] assms(1,2) by simp
  have ge: "0 \<le> sint x div k" using assms(1,2) by (simp add: pos_imp_zdiv_nonneg_iff)
  show ?thesis
    unfolding go_div_def k d using le ge lt
    by (simp add: sint_sbintrunc' signed_take_bit_int_eq_self)
qed

lemma sint_add_small:
  assumes "0 \<le> sint y" and "sint y < 2 ^ 62" and "0 \<le> c" and "c < 2 ^ 62"
  shows "sint ((word_of_int c :: go_int) + y) = c + sint y"
proof -
  have c: "sint (word_of_int c :: go_int) = c"
    using assms(3,4) by (simp add: sint_sbintrunc' signed_take_bit_int_eq_self)
  have "sint ((word_of_int c :: go_int) + y) = signed_take_bit 63 (c + sint y)"
    using c by (simp add: sint_word_ariths)
  also have "\<dots> = c + sint y"
    using assms by (simp add: signed_take_bit_int_eq_self)
  finally show ?thesis .
qed

section \<open>Properties of the rule engine\<close>

lemma example_cpu:
  "f64_add (f64_add (f64_div (f64_of_int 350) (f64_const 150)) (f64_const (3 / 4))) (f64_const (1 / 4))
     = Finite (7505999378950827 / 2251799813685248)"
  by code_simp

lemma example_cpu_text: "fmt_f2 (Finite (7505999378950827 / 2251799813685248)) = ''3.33''"
  by code_simp

lemma example_compute_spec:
  "ComputeSpec (decideCompute \<lparr>AppName = name, ExpectedLoad = 350, DataSize = 60,
       NetworkTraffic = traffic, ImportanceLevel = ''high''\<rparr> el)
     = \<lparr>CPU = f64_add (f64_add (f64_div (f64_of_int 350) (f64_const 150)) (f64_const (3 / 4)))
                (f64_const (1 / 4)),
        Memory = ''271Mi''\<rparr>"
  by (simp add: decideCompute_def Let_def zeroTimedResult_def go_div_def fmt_d_def
      dec_digits.simps digit_char_def)

text \<open>
  C1. For expectedLoad = 350, importance high and dataSize = 60 the spec expects the CPU
  \<open>350/150 + 0.75 + 0.25\<close> and the memory \<open>316Mi\<close>. The CPU is as stated; the memory the
  code computes is \<open>256 + 60/4 = 271\<close>, so \<open>271Mi\<close>: the dataSize override does win over
  \<open>1Gi\<close>, but the number in the spec adds 60 without dividing it by 4.
\<close>

theorem decideCompute_example:
  "ComputeSpec (decideCompute \<lparr>AppName = name, ExpectedLoad = 350, DataSize = 60,
       NetworkTraffic = traffic, ImportanceLevel = ''high''\<rparr> el)
     = \<lparr>CPU = f64_add (f64_add (f64_div (f64_of_int 350) (f64_const 150)) (f64_const (3 / 4)))
                (f64_const (1 / 4)),
        Memory = ''271Mi''\<rparr>
   \<and> f64_add (f64_add (f64_div (f64_of_int 350) (f64_const 150)) (f64_const (3 / 4))) (f64_const (1 / 4))
       = Finite (7505999378950827 / 2251799813685248)
   \<and> \<bar>7505999378950827 / 2251799813685248 - 10 / 3 :: rat\<bar> < 1 / 10 ^ 15
   \<and> fmt_f2 (Finite (7505999378950827 / 2251799813685248)) = ''3.33''"
proof -
  have "\<bar>7505999378950827 / 2251799813685248 - 10 / 3 :: rat\<bar> < 1 / 10 ^ 15"
    by simp
  then show ?thesis
    using example_compute_spec [of name traffic el] example_cpu example_cpu_text by simp
qed

theorem decideCompute_example_memory_counterexample:
  "Memory (ComputeSpec (decideCompute shop_config 0)) \<noteq> ''316Mi''"
  by (simp add: decideCompute_def shop_config_def Let_def zeroTimedResult_def go_div_def fmt_d_def
      dec_digits.simps digit_char_def)

text \<open>
  C2. Whenever dataSize exceeds 50, the memory of the compute decision is the decimal
  text of \<open>256 + dataSize / 4\<close> followed by \<open>Mi\<close>, whatever the load and the importance
  are. The quotient truncates (\<open>sdiv\<close>) and the sum is the one on the integers: the 64-bit
  addition cannot wrap here.
\<close>

theorem decideCompute_memory_dataSize:
  assumes "50 < sint (DataSize cfg)"
  shows "Memory (ComputeSpec (decideCompute cfg el)) = dec_digits (256 + sint (DataSize cfg) sdiv 4) @ ''Mi''"
proof -
  let ?d = "DataSize cfg"
  have pos: "50 <s ?d" using assms by (simp add: word_sless_alt)
  have lt: "sint ?d < 2 ^ 63" using sint_lt [of ?d] by simp
  have q: "sint (go_div ?d 4) = sint ?d div 4"
    using sint_go_div_nonneg [of ?d 4] assms by simp
  have s: "sint (256 + go_div ?d 4) = 256 + sint ?d div 4"
    using sint_add_small [of "go_div ?d 4" 256] q assms lt by simp
  have nn: "0 \<le> sint ?d div 4" using assms by (simp add: pos_imp_zdiv_nonneg_iff)
  have d: "sint ?d sdiv 4 = sint ?d div 4"
    using assms by (simp add: signed_divide_int_def sgn_if)
  have "fmt_d (256 + go_div ?d 4) = dec_digits (256 + sint ?d sdiv 4)"
    unfolding fmt_d_def s d using nn by simp
  then show ?thesis using pos
    by (simp add: decideCompute_def Let_def zeroTimedResult_def split: prod.splits)
qed

theorem decideCompute_memory_dataSize_witness:
  "50 < sint (DataSize shop_config) \<and> Memory (ComputeSpec (decideCompute shop_config 0)) = ''271Mi''"
proof -
  have h: "50 < sint (DataSize shop_config)" by (simp add: shop_config_def)
  show ?thesis
    using h decideCompute_memory_dataSize [OF h, of 0]
    by (simp add: shop_config_def dec_digits.simps digit_char_def)
qed

text \<open>
  C4. For dataSize = 300 and importance high the storage decision has capacity \<open>20Gi\<close> and
  class \<open>premium\<close>; with importance medium the same data size gives \<open>8Gi\<close>, the value that
  the importance override replaces.
\<close>

theorem decideStorage_example:
  "StorageSpec (decideStorage \<lparr>AppName = name, ExpectedLoad = load, DataSize = 300,
       NetworkTraffic = traffic, ImportanceLevel = ''high''\<rparr> el)
     = \<lparr>Capacity = ''20Gi'', Class = ''premium''\<rparr>
   \<and> StorageSpec (decideStorage \<lparr>AppName = name, ExpectedLoad = load, DataSize = 300,
       NetworkTraffic = traffic, ImportanceLevel = ''medium''\<rparr> el)
     = \<lparr>Capacity = ''8Gi'', Class = ''premium''\<rparr>"
  by (simp add: decideStorage_def Let_def zeroTimedResult_def go_div_def fmt_d_def
      dec_digits.simps digit_char_def)

text \<open>
  C7. The network decision has bandwidth \<open>50Mbps\<close> up to a traffic of 25 and \<open>200Mbps\<close>
  above it, and ports \<open>[8080]\<close>, with 443 appended exactly when the importance is high.
\<close>

theorem decideNetwork_rule:
  "(sint (NetworkTraffic cfg) \<le> 25 \<longrightarrow> Bandwidth (NetworkSpec (decideNetwork cfg el)) = ''50Mbps'')
   \<and> (25 < sint (NetworkTraffic cfg) \<longrightarrow> Bandwidth (NetworkSpec (decideNetwork cfg el)) = ''200Mbps'')
   \<and> (ImportanceLevel cfg \<noteq> ''high'' \<longrightarrow> Ports (NetworkSpec (decideNetwork cfg el)) = [8080])
   \<and> (ImportanceLevel cfg = ''high'' \<longrightarrow> Ports (NetworkSpec (decideNetwork cfg el)) = [8080, 443])"
  by (simp add: decideNetwork_def Let_def zeroTimedResult_def word_sless_alt)

theorem decideNetwork_rule_witness:
  "(25 < sint (NetworkTraffic shop_config) \<and> ImportanceLevel shop_config = ''high''
      \<and> NetworkSpec (decideNetwork shop_config 0) = \<lparr>Bandwidth = ''200Mbps'', Ports = [8080, 443]\<rparr>)
   \<and> (sint (NetworkTraffic batch_config) \<le> 25 \<and> ImportanceLevel batch_config \<noteq> ''high''
      \<and> NetworkSpec (decideNetwork batch_config 0) = \<lparr>Bandwidth = ''50Mbps'', Ports = [8080]\<rparr>)"
proof -
  have a: "25 < sint (NetworkTraffic shop_config)" "ImportanceLevel shop_config = ''high''"
    by (simp_all add: shop_config_def)
  have b: "sint (NetworkTraffic batch_config) \<le> 25" "ImportanceLevel batch_config \<noteq> ''high''"
    by (simp_all add: batch_config_def)
  show ?thesis
    using a b decideNetwork_rule [of shop_config 0] decideNetwork_rule [of batch_config 0]
    by (cases "NetworkSpec (decideNetwork shop_config 0)";
        cases "NetworkSpec (decideNetwork batch_config 0)") simp
qed

text \<open>
  C10. With importance high and a data size of at most 250 the storage decision is
  \<open>20Gi\<close> on the class \<open>standard\<close>: the override changes the capacity and leaves the class
  at its default.
\<close>

theorem decideStorage_high_small_data:
  assumes "ImportanceLevel cfg = ''high''" and "sint (DataSize cfg) \<le> 250"
  shows "StorageSpec (decideStorage cfg el) = \<lparr>Capacity = ''20Gi'', Class = ''standard''\<rparr>"
  using assms by (simp add: decideStorage_def Let_def zeroTimedResult_def word_sless_alt)

theorem decideStorage_high_small_data_witness:
  "ImportanceLevel shop_config = ''high'' \<and> sint (DataSize shop_config) \<le> 250
   \<and> StorageSpec (decideStorage shop_config 0) = \<lparr>Capacity = ''20Gi'', Class = ''standard''\<rparr>"
proof -
  have h: "ImportanceLevel shop_config = ''high''" "sint (DataSize shop_config) \<le> 250"
    by (simp_all add: shop_config_def)
  show ?thesis using h decideStorage_high_small_data [OF h, of 0] by simp
qed

section \<open>Properties of the aggregator\<close>

lemma Name_decide [simp]:
  "Name (decideCompute cfg el) = ''compute''"
  "Name (decideNetwork cfg el) = ''network''"
  "Name (decideStorage cfg el) = ''storage''"
  by (simp_all add: decideCompute_def decideNetwork_def decideStorage_def Let_def split: prod.splits)

lemma Error_decide [simp]:
  "Error (decideCompute cfg el) = None"
  "Error (decideNetwork cfg el) = None"
  "Error (decideStorage cfg el) = None"
  by (simp_all add: decideCompute_def decideNetwork_def decideStorage_def Let_def split: prod.splits)

lemma decision_decide:
  "decision (decideCompute cfg el) = decideCompute cfg 0"
  "decision (decideNetwork cfg el) = decideNetwork cfg 0"
  "decision (decideStorage cfg el) = decideStorage cfg 0"
  by (simp_all add: decision_def decideCompute_def decideNetwork_def decideStorage_def Let_def
      split: prod.splits)

lemma fair_cases:
  assumes "fair s"
  shows "arrival s \<in> {[ComputeTask, NetworkTask, StorageTask], [ComputeTask, StorageTask, NetworkTask],
                      [NetworkTask, ComputeTask, StorageTask], [NetworkTask, StorageTask, ComputeTask],
                      [StorageTask, ComputeTask, NetworkTask], [StorageTask, NetworkTask, ComputeTask]}"
proof -
  from assms obtain a b c where abc: "arrival s = [a, b, c]"
    by (auto simp: fair_def length_Suc_conv numeral_3_eq_3)
  with assms have "a \<noteq> b" "a \<noteq> c" "b \<noteq> c" by (auto simp: fair_def)
  then show ?thesis unfolding abc by (cases a; cases b; cases c) simp_all
qed

lemma collectFrom_three:
  assumes "Error a = None" "Error b = None" "Error c = None"
  shows "collectFrom [a, b, c] = Some (Some (Map.empty(Name a \<mapsto> a, Name b \<mapsto> b, Name c \<mapsto> c)), None)"
  using assms by (simp add: collectFrom_def numeral_3_eq_3)

lemma collect_fair:
  assumes "fair s"
  shows "collectTimedResourceSpecs cfg s = Some (Some (decided cfg (elapsed s)), None)"
proof -
  have ne: "''compute'' \<noteq> ''network''" "''compute'' \<noteq> ''storage''" "''network'' \<noteq> ''storage''"
    by simp_all
  from fair_cases [OF assms] show ?thesis
    unfolding collectTimedResourceSpecs_def decided_def
    by (elim insertE emptyE) (simp_all add: collectFrom_three fun_upd_twist [OF ne(1)] fun_upd_twist [OF ne(2)] fun_upd_twist [OF ne(3)])
qed

lemma dom_decided: "dom (decided cfg el) = {''compute'', ''network'', ''storage''}"
  by (auto simp: decided_def split: if_splits)

lemma decided_lookup:
  "decided cfg el ''compute'' = Some (decideCompute cfg (el ComputeTask))"
  "decided cfg el ''network'' = Some (decideNetwork cfg (el NetworkTask))"
  "decided cfg el ''storage'' = Some (decideStorage cfg (el StorageTask))"
  by (simp_all add: decided_def)

lemma fair_examples: "fair storage_first" "fair compute_first"
  by (simp_all add: fair_def storage_first_def compute_first_def)

lemma recvLoop_failure:
  assumes "r \<in> set ch" and "Error r \<noteq> None" and "length ch \<le> n"
  shows "\<exists>r' e. r' \<in> set ch \<and> Error r' = Some e \<and>
           recvLoop n ch acc = Some (None, Some (''error in '' @ Name r' @ '' decision: '' @ e))"
  using assms
proof (induction n ch acc rule: recvLoop.induct)
  case (1 ch timedResults)
  then show ?case by simp
next
  case (2 n timedResults)
  then show ?case by simp
next
  case (3 n x ch timedResults)
  show ?case
  proof (cases "Error x")
    case None
    with 3 have "r \<in> set ch" by auto
    with 3 None obtain r' e where "r' \<in> set ch" "Error r' = Some e"
      "recvLoop n ch (timedResults(Name x \<mapsto> x)) = Some (None, Some (''error in '' @ Name r' @ '' decision: '' @ e))"
      by fastforce
    with None show ?thesis by auto
  next
    case (Some e)
    then show ?thesis by auto
  qed
qed

text \<open>
  C5. The aggregator receives three results. If one of them carries a failure, it returns
  no map at all (\<open>nil\<close>) and one error whose text names a failing decision; if none
  does and the three results are named compute, network and storage, it returns a map with
  exactly these three keys, each result under its own name. Run on the three rule
  functions, under any order of arrival and any measured times,
  \<open>collectTimedResourceSpecs\<close> returns no error and a map whose keys are exactly
  compute, network and storage, each holding the result of the rule of that name.
\<close>

theorem collect_all_or_nothing:
  assumes "length ch = 3"
  shows "((\<exists>r\<in>set ch. Error r \<noteq> None) \<longrightarrow>
            (\<exists>r e. r \<in> set ch \<and> Error r = Some e \<and>
               collectFrom ch = Some (None, Some (''error in '' @ Name r @ '' decision: '' @ e))))
       \<and> ((\<forall>r\<in>set ch. Error r = None) \<and> Name ` set ch = {''compute'', ''network'', ''storage''} \<longrightarrow>
            (\<exists>m. collectFrom ch = Some (Some m, None)
               \<and> dom m = {''compute'', ''network'', ''storage''}
               \<and> (\<forall>r\<in>set ch. m (Name r) = Some r)))
       \<and> (fair s \<longrightarrow>
            (\<exists>m. collectTimedResourceSpecs cfg s = Some (Some m, None)
               \<and> dom m = {''compute'', ''network'', ''storage''}
               \<and> m ''compute'' = Some (decideCompute cfg (elapsed s ComputeTask))
               \<and> m ''network'' = Some (decideNetwork cfg (elapsed s NetworkTask))
               \<and> m ''storage'' = Some (decideStorage cfg (elapsed s StorageTask))))"
proof (intro conjI impI)
  assume "\<exists>r\<in>set ch. Error r \<noteq> None"
  then obtain r where "r \<in> set ch" "Error r \<noteq> None" by blast
  with assms show "\<exists>r e. r \<in> set ch \<and> Error r = Some e \<and>
      collectFrom ch = Some (None, Some (''error in '' @ Name r @ '' decision: '' @ e))"
    unfolding collectFrom_def by (intro recvLoop_failure) simp_all
next
  assume ok: "(\<forall>r\<in>set ch. Error r = None) \<and> Name ` set ch = {''compute'', ''network'', ''storage''}"
  from assms obtain a b c where abc: "ch = [a, b, c]"
    by (auto simp: length_Suc_conv numeral_3_eq_3)
  have "card (set (map Name ch)) = 3" using ok by simp
  then have "distinct (map Name ch)" using assms by (simp add: card_distinct)
  then have ne: "Name a \<noteq> Name b" "Name a \<noteq> Name c" "Name b \<noteq> Name c"
    by (auto simp: abc)
  have "collectFrom ch = Some (Some (Map.empty(Name a \<mapsto> a, Name b \<mapsto> b, Name c \<mapsto> c)), None)"
    unfolding abc using ok by (intro collectFrom_three) (simp_all add: abc)
  moreover have "dom (Map.empty(Name a \<mapsto> a, Name b \<mapsto> b, Name c \<mapsto> c)) = {''compute'', ''network'', ''storage''}"
    using ok by (auto simp: abc)
  moreover have "\<forall>r\<in>set ch. (Map.empty(Name a \<mapsto> a, Name b \<mapsto> b, Name c \<mapsto> c)) (Name r) = Some r"
    using ne by (auto simp: abc)
  ultimately show "\<exists>m. collectFrom ch = Some (Some m, None)
               \<and> dom m = {''compute'', ''network'', ''storage''}
               \<and> (\<forall>r\<in>set ch. m (Name r) = Some r)"
    by blast
next
  assume "fair s"
  then have "collectTimedResourceSpecs cfg s = Some (Some (decided cfg (elapsed s)), None)"
    by (rule collect_fair)
  then show "\<exists>m. collectTimedResourceSpecs cfg s = Some (Some m, None)
               \<and> dom m = {''compute'', ''network'', ''storage''}
               \<and> m ''compute'' = Some (decideCompute cfg (elapsed s ComputeTask))
               \<and> m ''network'' = Some (decideNetwork cfg (elapsed s NetworkTask))
               \<and> m ''storage'' = Some (decideStorage cfg (elapsed s StorageTask))"
    using dom_decided [of cfg "elapsed s"] decided_lookup [of cfg "elapsed s"] by simp
qed

lemma failed_network_facts:
  "Name failed_network = ''network''" "Error failed_network = Some ''link down''"
  by (simp_all add: failed_network_def)

theorem collect_all_or_nothing_witness:
  "length channel_with_failure = 3 \<and> failed_network \<in> set channel_with_failure
   \<and> Error failed_network \<noteq> None
   \<and> collectFrom channel_with_failure = Some (None, Some ''error in network decision: link down'')
   \<and> length channel_all_good = 3
   \<and> list_all (\<lambda>r. Error r = None) channel_all_good
   \<and> map Name channel_all_good = [''storage'', ''network'', ''compute'']
   \<and> map_option (map_prod (map_option dom) id) (collectFrom channel_all_good)
       = Some (Some {''compute'', ''network'', ''storage''}, None)
   \<and> fair storage_first
   \<and> map_option (map_prod (map_option dom) id) (collectTimedResourceSpecs shop_config storage_first)
       = Some (Some {''compute'', ''network'', ''storage''}, None)
   \<and> map_option (map_prod (map_option (\<lambda>m. map m [''compute'', ''network'', ''storage''])) id)
         (collectTimedResourceSpecs shop_config storage_first)
       = Some (Some [Some (decideCompute shop_config 100000000),
                     Some (decideNetwork shop_config 100000000),
                     Some (decideStorage shop_config 100000000)], None)"
proof -
  have l1: "length channel_with_failure = 3" by (simp add: channel_with_failure_def)
  have l2: "length channel_all_good = 3" by (simp add: channel_all_good_def)
  have f: "\<exists>r\<in>set channel_with_failure. Error r \<noteq> None"
    by (simp add: channel_with_failure_def failed_network_facts)
  have "\<forall>r\<in>set channel_with_failure. Error r \<noteq> None \<longrightarrow> r = failed_network"
    by (simp add: channel_with_failure_def)
  then have only: "r = failed_network" if "r \<in> set channel_with_failure" "Error r = Some e" for r e
    using that by simp
  from collect_all_or_nothing [OF l1, THEN conjunct1, THEN mp, OF f]
  obtain r e where re: "r \<in> set channel_with_failure"
    "Error r = Some e"
    "collectFrom channel_with_failure = Some (None, Some (''error in '' @ Name r @ '' decision: '' @ e))"
    by (elim exE conjE)
  from only [OF re(1,2)] re have bad:
    "collectFrom channel_with_failure = Some (None, Some ''error in network decision: link down'')"
    by (simp add: failed_network_facts)
  have g: "(\<forall>r\<in>set channel_all_good. Error r = None)
      \<and> Name ` set channel_all_good = {''compute'', ''network'', ''storage''}"
    by (auto simp: channel_all_good_def)
  from collect_all_or_nothing [OF l2, THEN conjunct2, THEN conjunct1, THEN mp, OF g]
  obtain m where m: "collectFrom channel_all_good = Some (Some m, None)"
    "dom m = {''compute'', ''network'', ''storage''}"
    by (elim exE conjE)
  then have good: "map_option (map_prod (map_option dom) id) (collectFrom channel_all_good)
       = Some (Some {''compute'', ''network'', ''storage''}, None)"
    by simp
  have fs: "fair storage_first" by (rule fair_examples)
  from collect_all_or_nothing [where cfg = shop_config and s = storage_first, OF l1, THEN conjunct2, THEN conjunct2,
      THEN mp, OF fs]
  obtain m' where m': "collectTimedResourceSpecs shop_config storage_first = Some (Some m', None)"
    "dom m' = {''compute'', ''network'', ''storage''}"
    "m' ''compute'' = Some (decideCompute shop_config (elapsed storage_first ComputeTask))"
    "m' ''network'' = Some (decideNetwork shop_config (elapsed storage_first NetworkTask))"
    "m' ''storage'' = Some (decideStorage shop_config (elapsed storage_first StorageTask))"
    by (elim exE conjE)
  have el: "elapsed storage_first = (\<lambda>t. 100000000)" by (simp add: storage_first_def)
  have run: "map_option (map_prod (map_option dom) id) (collectTimedResourceSpecs shop_config storage_first)
       = Some (Some {''compute'', ''network'', ''storage''}, None)"
    "map_option (map_prod (map_option (\<lambda>m. map m [''compute'', ''network'', ''storage''])) id)
         (collectTimedResourceSpecs shop_config storage_first)
       = Some (Some [Some (decideCompute shop_config 100000000),
                     Some (decideNetwork shop_config 100000000),
                     Some (decideStorage shop_config 100000000)], None)"
    using m' by (simp_all add: el)
  have rest: "length channel_with_failure = 3 \<and> failed_network \<in> set channel_with_failure
   \<and> Error failed_network \<noteq> None
   \<and> collectFrom channel_with_failure = Some (None, Some ''error in network decision: link down'')
   \<and> length channel_all_good = 3
   \<and> list_all (\<lambda>r. Error r = None) channel_all_good
   \<and> map Name channel_all_good = [''storage'', ''network'', ''compute'']
   \<and> map_option (map_prod (map_option dom) id) (collectFrom channel_all_good)
       = Some (Some {''compute'', ''network'', ''storage''}, None)"
    using l1 l2 bad good
    by (simp add: failed_network_facts) (simp add: channel_with_failure_def channel_all_good_def)
  show ?thesis using rest fs run by simp
qed

text \<open>
  C9. No rule function ever sets the error of its result, so whatever the order of arrival
  and the measured times, the aggregator returns a map and no error.
\<close>

theorem rules_never_fail:
  "Error (decideCompute cfg el) = None \<and> Error (decideNetwork cfg el) = None
   \<and> Error (decideStorage cfg el) = None
   \<and> (fair s \<longrightarrow> (\<exists>m. collectTimedResourceSpecs cfg s = Some (Some m, None)))"
  by (simp add: collect_fair)

theorem rules_never_fail_witness:
  "fair storage_first
   \<and> map_option snd (collectTimedResourceSpecs shop_config storage_first) = Some None
   \<and> map_option (map_option dom \<circ> fst) (collectTimedResourceSpecs shop_config storage_first)
       = Some (Some {''compute'', ''network'', ''storage''})"
proof -
  have f: "fair storage_first" by (rule fair_examples)
  from rules_never_fail [of shop_config 0 storage_first, THEN conjunct2, THEN conjunct2,
      THEN conjunct2, THEN mp, OF f]
  obtain m where m: "collectTimedResourceSpecs shop_config storage_first = Some (Some m, None)"
    by (elim exE)
  have "collectTimedResourceSpecs shop_config storage_first
      = Some (Some (decided shop_config (elapsed storage_first)), None)"
    by (rule collect_fair [OF f])
  with m have "m = decided shop_config (elapsed storage_first)" by simp
  then have "dom m = {''compute'', ''network'', ''storage''}"
    by (simp only: dom_decided)
  with f m show ?thesis by simp
qed

text \<open>
  C8. What a rule decides depends on the input only, not on the time it measured; and for
  any two schedules (orders of arrival and measured times) the two maps the aggregator
  returns hold the same decisions under the same keys.
\<close>

theorem decisions_deterministic:
  "decision (decideCompute cfg el) = decision (decideCompute cfg el')
   \<and> decision (decideNetwork cfg el) = decision (decideNetwork cfg el')
   \<and> decision (decideStorage cfg el) = decision (decideStorage cfg el')
   \<and> (fair s \<and> fair s' \<longrightarrow>
        (\<exists>m m'. collectTimedResourceSpecs cfg s = Some (Some m, None)
           \<and> collectTimedResourceSpecs cfg s' = Some (Some m', None)
           \<and> (\<forall>k. map_option decision (m k) = map_option decision (m' k))))"
  by (simp add: decision_decide collect_fair decided_def)

theorem decisions_deterministic_witness:
  "fair storage_first \<and> fair compute_first
   \<and> arrival storage_first \<noteq> arrival compute_first
   \<and> elapsed storage_first ComputeTask \<noteq> elapsed compute_first ComputeTask
   \<and> map_option snd (collectTimedResourceSpecs shop_config storage_first) = Some None
   \<and> map_option snd (collectTimedResourceSpecs shop_config compute_first) = Some None
   \<and> map (\<lambda>k. map_option decision (the (fst (the (collectTimedResourceSpecs shop_config storage_first))) k))
        [''compute'', ''network'', ''storage'', ''other'']
     = map (\<lambda>k. map_option decision (the (fst (the (collectTimedResourceSpecs shop_config compute_first))) k))
        [''compute'', ''network'', ''storage'', ''other'']"
proof -
  have f: "fair storage_first \<and> fair compute_first" using fair_examples by simp
  from decisions_deterministic [of shop_config 0 0 storage_first compute_first, THEN conjunct2,
      THEN conjunct2, THEN conjunct2, THEN mp, OF f]
  obtain m m' where m: "collectTimedResourceSpecs shop_config storage_first = Some (Some m, None)"
    "collectTimedResourceSpecs shop_config compute_first = Some (Some m', None)"
    "\<forall>k. map_option decision (m k) = map_option decision (m' k)"
    by (elim exE conjE)
  have d: "arrival storage_first \<noteq> arrival compute_first"
    "elapsed storage_first ComputeTask \<noteq> elapsed compute_first ComputeTask"
    by (simp_all add: storage_first_def compute_first_def)
  show ?thesis using f m d by simp
qed

section \<open>Properties of the manifest\<close>

lemma portString_concat: "portString ports = concat (map portEntry ports)"
proof -
  have "foldl (\<lambda>s port. s @ portEntry port) acc ports = acc @ concat (map portEntry ports)" for acc
    by (induction ports arbitrary: acc) simp_all
  then show ?thesis by (simp add: portString_def)
qed

text \<open>
  C6. The descriptor generated for an application name and a map of results, with the port
  list of the network result as \<open>generateAndWriteManifest\<close> passes it, contains the
  resources block with the CPU request \<open>CPU * 0.8\<close> and the CPU limit \<open>CPU\<close>, both
  printed with two decimals, the same memory text as request and as limit, and then the
  ports block: one \<open>containerPort\<close> entry for each port of the list, in the order of
  the list, and nothing else up to the \<open>env\<close> block.
\<close>

theorem manifest_resources_and_ports:
  \<open>let compute = ComputeSpec (lookupResult timedResults ''compute'');
       ports = Ports (NetworkSpec (lookupResult timedResults ''network''))
   in \<exists>pre post. generateKubernetesManifest appName timedResults ports =
        pre @
        ''        resources:\<newline>'' @
        ''          requests:\<newline>'' @
        ''            cpu: "'' @ fmt_f2 (f64_mul (CPU compute) (f64_const (4 / 5))) @ ''"\<newline>'' @
        ''            memory: "'' @ Memory compute @ ''"\<newline>'' @
        ''          limits:\<newline>'' @
        ''            cpu: "'' @ fmt_f2 (CPU compute) @ ''"\<newline>'' @
        ''            memory: "'' @ Memory compute @ ''"\<newline>'' @
        ''        ports:\<newline>'' @
        concat (map (\<lambda>port. ''\<newline>'' @
                              ''          - containerPort: '' @ fmt_d port @ ''\<newline>'' @
                              ''            protocol: TCP\<newline>'' @
                              ''        '') ports) @
        ''\<newline>'' @
        ''        env:\<newline>'' @ post\<close>
proof -
  let ?pre = "''\<newline>'' @
         ''apiVersion: apps/v1\<newline>'' @
         ''kind: Deployment\<newline>'' @
         ''metadata:\<newline>'' @
         ''  name: '' @ appName @ ''-deployment\<newline>'' @
         ''spec:\<newline>'' @
         ''  replicas: 1\<newline>'' @
         ''  selector:\<newline>'' @
         ''    matchLabels:\<newline>'' @
         ''      app: '' @ appName @ ''\<newline>'' @
         ''  template:\<newline>'' @
         ''    metadata:\<newline>'' @
         ''      labels:\<newline>'' @
         ''        app: '' @ appName @ ''\<newline>'' @
         ''    spec:\<newline>'' @
         ''      containers:\<newline>'' @
         ''      - name: '' @ appName @ ''-container\<newline>'' @
         ''        image: your-app-image:latest # Replace with your actual image\<newline>''"
  let ?post = \<open>''          - name: NETWORK_BANDWIDTH\<newline>'' @
         ''            value: "'' @ Bandwidth (NetworkSpec (lookupResult timedResults ''network'')) @ ''"\<newline>'' @
         ''          - name: STORAGE_CAPACITY\<newline>'' @
         ''            value: "'' @ Capacity (StorageSpec (lookupResult timedResults ''storage'')) @ ''"\<newline>'' @
         ''          - name: STORAGE_CLASS\<newline>'' @
         ''            value: "'' @ Class (StorageSpec (lookupResult timedResults ''storage'')) @ ''"\<newline>''\<close>
  have e: "portEntry = (\<lambda>port. ''\<newline>'' @
                              ''          - containerPort: '' @ fmt_d port @ ''\<newline>'' @
                              ''            protocol: TCP\<newline>'' @
                              ''        '')"
    by (rule ext) (simp add: portEntry_def)
  show ?thesis
    unfolding Let_def
    by (rule exI [of _ ?pre], rule exI [of _ ?post])
      (simp add: generateKubernetesManifest_def Let_def portString_concat e)
qed

lemma example_cpu_request_text:
  "fmt_f2 (f64_mul (Finite (7505999378950827 / 2251799813685248)) (f64_const (4 / 5))) = ''2.67''"
  by code_simp

lemma shop_compute:
  "ComputeSpec (lookupResult shop_results ''compute'')
     = \<lparr>CPU = Finite (7505999378950827 / 2251799813685248), Memory = ''271Mi''\<rparr>"
proof -
  have "lookupResult shop_results ''compute'' = decideCompute shop_config 0"
    by (simp add: shop_results_def decided_def lookupResult_def)
  then show ?thesis
    using example_compute_spec [of "''shop''" 30 0] example_cpu by (simp add: shop_config_def)
qed

lemma shop_ports: "Ports (NetworkSpec (lookupResult shop_results ''network'')) = [8080, 443]"
  by (simp add: shop_results_def decided_def lookupResult_def decideNetwork_def shop_config_def
      Let_def zeroTimedResult_def)

lemma fmt_d_ports: "fmt_d 8080 = ''8080''" "fmt_d 443 = ''443''"
  by (simp_all add: fmt_d_def dec_digits.simps digit_char_def)

theorem manifest_resources_and_ports_witness:
  \<open>sublist
     (''        resources:\<newline>'' @
      ''          requests:\<newline>'' @
      ''            cpu: "2.67"\<newline>'' @
      ''            memory: "271Mi"\<newline>'' @
      ''          limits:\<newline>'' @
      ''            cpu: "3.33"\<newline>'' @
      ''            memory: "271Mi"\<newline>'' @
      ''        ports:\<newline>'' @
      ''\<newline>'' @
      ''          - containerPort: 8080\<newline>'' @
      ''            protocol: TCP\<newline>'' @
      ''        '' @
      ''\<newline>'' @
      ''          - containerPort: 443\<newline>'' @
      ''            protocol: TCP\<newline>'' @
      ''        '' @
      ''\<newline>'' @
      ''        env:\<newline>'')
     (generateKubernetesManifest ''shop'' shop_results [8080, 443])\<close>
  (is "sublist ?block _")
proof -
  have a: "fmt_f2 (f64_mul (CPU (ComputeSpec (lookupResult shop_results ''compute''))) (f64_const (4 / 5))) = ''2.67''"
    by (simp add: shop_compute example_cpu_request_text)
  have b: "fmt_f2 (CPU (ComputeSpec (lookupResult shop_results ''compute''))) = ''3.33''"
    by (simp add: shop_compute example_cpu_text del: fmt_f2.simps)
  have c: "Memory (ComputeSpec (lookupResult shop_results ''compute'')) = ''271Mi''"
    by (simp add: shop_compute)
  have d: "Ports (NetworkSpec (lookupResult shop_results ''network'')) = [8080, 443]"
    by (rule shop_ports)
  from manifest_resources_and_ports [of shop_results "''shop''"]
  obtain pre post where m: "generateKubernetesManifest ''shop'' shop_results [8080, 443] =
      pre @ 
        ''        resources:\<newline>'' @
        ''          requests:\<newline>'' @
        (''            cpu: '' @ [CHR 0x22]) @ ''2.67'' @ ([CHR 0x22] @ ''\<newline>'') @
        (''            memory: '' @ [CHR 0x22]) @ ''271Mi'' @ ([CHR 0x22] @ ''\<newline>'') @
        ''          limits:\<newline>'' @
        (''            cpu: '' @ [CHR 0x22]) @ ''3.33'' @ ([CHR 0x22] @ ''\<newline>'') @
        (''            memory: '' @ [CHR 0x22]) @ ''271Mi'' @ ([CHR 0x22] @ ''\<newline>'') @
        ''        ports:\<newline>'' @
        concat (map (\<lambda>port. ''\<newline>'' @
                              ''          - containerPort: '' @ fmt_d port @ ''\<newline>'' @
                              ''            protocol: TCP\<newline>'' @
                              ''        '') [8080, 443]) @
        ''\<newline>'' @
        ''        env:\<newline>'' @ post"
    unfolding Let_def a b c d by (elim exE) simp
  have e: "generateKubernetesManifest ''shop'' shop_results [8080, 443] = pre @ ?block @ post"
    unfolding m by (simp add: fmt_d_ports)
  show ?thesis unfolding e by (rule sublist_appendI)
qed

section \<open>A manifest that cannot be written\<close>

lemma sublist_skip: "sublist x t \<Longrightarrow> sublist x (p @ t)"
  by (metis sublist_order.order_trans sublist_append_leftI)

lemma summary_shows_decisions:
  assumes "err m = None" and "result m \<noteq> None"
  shows "shows_decisions (result m) (generateOutput h m)"
proof -
  have "generateOutput h m = 
          ''# Resource Allocation Decision\<newline>\<newline>'' @
           ''## Decided Resources\<newline>\<newline>'' @
           ''- **Compute:** CPU='' @ fmt_f2 (CPU (ComputeSpec (lookupResult (result m) ''compute''))) @ '' cores, Memory='' @
              Memory (ComputeSpec (lookupResult (result m) ''compute'')) @ '' (took '' @
              durationString h (Duration (lookupResult (result m) ''compute'')) @ '')\<newline>'' @
           ''- **Network:** Bandwidth='' @ Bandwidth (NetworkSpec (lookupResult (result m) ''network'')) @ '', Ports='' @
              fmt_v_ints (Ports (NetworkSpec (lookupResult (result m) ''network''))) @ '' (took '' @
              durationString h (Duration (lookupResult (result m) ''network'')) @ '')\<newline>'' @
           ''- **Storage:** Capacity='' @ Capacity (StorageSpec (lookupResult (result m) ''storage'')) @ '', Class='' @
              Class (StorageSpec (lookupResult (result m) ''storage'')) @ '' (took '' @
              durationString h (Duration (lookupResult (result m) ''storage'')) @ '')\<newline>'' @
           (if k8sManifestPath m \<noteq> []
            then ''\<newline>## File Generated\<newline>\<newline>Deployment file generated within `'' @
                 k8sManifestPath m @ ''`\<newline>''
            else [])"
    using assms by (simp add: generateOutput_def Let_def)
  then show ?thesis
    unfolding shows_decisions_def
    by (simp only:) (intro conjI sublist_append_rightI sublist_skip)
qed

lemma update_after_failure:
  assumes "generateAndWriteManifest h (m\<lparr>processing := False, result := rs, inputState := inputStateDone\<rparr>)
             = (m1, Some e)"
  shows "fst (Update h (ProcessCompleteMsg rs) m)
           = m\<lparr>processing := False, result := rs, inputState := inputStateDone,
               err := Some (''failed to generate/write manifest: '' @ e), output := []\<rparr>"
proof -
  have "m1 = m\<lparr>processing := False, result := rs, inputState := inputStateDone\<rparr>"
    using assms by (auto simp: generateAndWriteManifest_def Let_def split: if_splits option.splits)
  with assms show ?thesis by (simp add: generateOutput_def)
qed

text \<open>
  C3. When generating or writing the manifest fails, the program does not show the failure
  next to the decision summary. \<open>Update\<close> stores the failure in \<open>err\<close>; with \<open>err\<close> set,
  \<open>generateOutput\<close> returns the empty text and \<open>View\<close> renders the error document only,
  which depends on the failure and not on the decisions.
\<close>

theorem manifest_failure_replaces_summary:
  assumes "generateAndWriteManifest h (m\<lparr>processing := False, result := rs, inputState := inputStateDone\<rparr>)
             = (m1, Some e)"
  shows "err (fst (Update h (ProcessCompleteMsg rs) m)) = Some (''failed to generate/write manifest: '' @ e)
     \<and> output (fst (Update h (ProcessCompleteMsg rs) m)) = []
     \<and> (\<not> quitting m \<longrightarrow>
          View h (fst (Update h (ProcessCompleteMsg rs) m)) =
            (case glamourRender h (''# Error\<newline>\<newline>```\<newline>'' @
                    (''failed to generate/write manifest: '' @ e) @ ''\<newline>```'') ''dark'' of
               Inl renderErr \<Rightarrow> Text (''Error rendering error message: '' @ renderErr @
                    ''\<newline>Original Error:\<newline>'' @ (''failed to generate/write manifest: '' @ e) @ ''\<newline>'')
             | Inr errorOutput \<Rightarrow> Text errorOutput))"
  unfolding update_after_failure [OF assms] by (simp add: View_def split: sum.splits)

lemma readonly_failure:
  "generateAndWriteManifest readonly_host
      (waiting_model\<lparr>processing := False, result := shop_results, inputState := inputStateDone\<rparr>)
     = (waiting_model\<lparr>processing := False, result := shop_results, inputState := inputStateDone\<rparr>,
        Some ''error creating k8s directory: mkdir k8s: permission denied'')"
  by (simp add: generateAndWriteManifest_def Let_def readonly_host_def shop_results_def)

theorem manifest_failure_replaces_summary_witness:
  "snd (generateAndWriteManifest readonly_host
      (waiting_model\<lparr>processing := False, result := shop_results, inputState := inputStateDone\<rparr>))
     = Some ''error creating k8s directory: mkdir k8s: permission denied''
   \<and> \<not> quitting waiting_model
   \<and> output (fst (Update readonly_host (ProcessCompleteMsg shop_results) waiting_model)) = []
   \<and> View readonly_host (fst (Update readonly_host (ProcessCompleteMsg shop_results) waiting_model))
       = Text (''# Error\<newline>\<newline>```\<newline>'' @
          ''failed to generate/write manifest: error creating k8s directory: mkdir k8s: permission denied'' @
          ''\<newline>```'')"
proof -
  have q: "\<not> quitting waiting_model" by (simp add: waiting_model_def)
  have r: "glamourRender readonly_host = (\<lambda>markdown style. Inr markdown)"
    by (simp add: readonly_host_def)
  show ?thesis
    using manifest_failure_replaces_summary [OF readonly_failure] q
    by (simp add: readonly_failure r)
qed

theorem summary_suppressed_counterexample:
  "\<not> shows_decisions shop_results
       (screen_text (View readonly_host (fst (Update readonly_host (ProcessCompleteMsg shop_results) waiting_model))))"
proof -
  have "fst (Update readonly_host (ProcessCompleteMsg shop_results) waiting_model)
      = waiting_model\<lparr>processing := False, result := shop_results, inputState := inputStateDone,
               err := Some (''failed to generate/write manifest: '' @ ''error creating k8s directory: mkdir k8s: permission denied''), output := []\<rparr>"
    by (rule update_after_failure [OF readonly_failure])
  then have v: "screen_text (View readonly_host (fst (Update readonly_host (ProcessCompleteMsg shop_results) waiting_model)))
       = ''# Error\<newline>\<newline>```\<newline>'' @
          ''failed to generate/write manifest: error creating k8s directory: mkdir k8s: permission denied'' @
          ''\<newline>```''"
    by (simp add: View_def waiting_model_def readonly_host_def)
  have m: "Memory (ComputeSpec (lookupResult shop_results ''compute'')) = ''271Mi''"
    by (simp add: shop_results_def decided_def lookupResult_def decideCompute_def shop_config_def Let_def zeroTimedResult_def go_div_def fmt_d_def
      dec_digits.simps digit_char_def)
  have "\<not> sublist ''271Mi'' (''# Error\<newline>\<newline>```\<newline>'' @
          ''failed to generate/write manifest: error creating k8s directory: mkdir k8s: permission denied'' @
          ''\<newline>```'')"
    by (simp add: sublist_Cons_right)
  then show ?thesis unfolding shows_decisions_def v m by simp
qed

end
